theory Spec2Isabelle
  imports Complex_Main "HOL-Library.Monad_Syntax"
begin

section \<open>Numbers and rows\<close>

text \<open>
  The component under study is \<^verbatim>\<open>src/ClusterAnalysisTool.jsx\<close>. Its numbers are
  modelled as exact rationals: every finite double is a rational, and the rounding of
  double arithmetic is not part of this model. A result that JavaScript would report
  as \<^verbatim>\<open>NaN\<close> or \<^verbatim>\<open>Infinity\<close> has no rational value and is \<open>None\<close>.

  A parsed row carries the integer cluster label and the five metric fields. A field
  that is missing, \<^verbatim>\<open>undefined\<close> or \<^verbatim>\<open>null\<close> on the row is \<open>None\<close>. Other
  columns of the table are carried along untouched by the source and are left out.
\<close>

record video_record =
  row_cluster :: int
  motion_mean :: "rat option"
  cut_rate_per_min :: "rat option"
  audio_rms_mean :: "rat option"
  audio_rms_std :: "rat option"
  visual_density :: "rat option"

text \<open>\<^verbatim>\<open>x || 0\<close> on a metric field: a missing value and the number zero both give 0.\<close>

fun or_zero :: "rat option \<Rightarrow> rat" where
  "or_zero None = 0"
| "or_zero (Some v) = (if v = 0 then 0 else v)"

section \<open>ClusterAggregator: calculateClusterStats\<close>

record cluster_group =
  group_cluster :: int
  group_count :: nat
  group_videos :: "video_record list"
  motion_values :: "rat list"
  cut_rate_values :: "rat list"
  audio_rms_mean_values :: "rat list"
  audio_rms_std_values :: "rat list"
  visual_density_values :: "rat list"

record cluster_stats =
  cluster :: int
  count :: nat
  avg_motion :: rat
  min_motion :: rat
  max_motion :: rat
  avg_cut_rate :: rat
  min_cut_rate :: rat
  max_cut_rate :: rat
  avg_audio_rms_mean :: rat
  avg_audio_rms_std :: rat
  avg_visual_density :: rat
  min_visual_density :: rat
  max_visual_density :: rat
  videos :: "video_record list"

text \<open>The object literal stored under a cluster key that is seen for the first time.\<close>

definition new_group :: "int \<Rightarrow> cluster_group" where
  "new_group c =
     \<lparr>group_cluster = c, group_count = 0, group_videos = [], motion_values = [],
      cut_rate_values = [], audio_rms_mean_values = [], audio_rms_std_values = [],
      visual_density_values = []\<rparr>"

text \<open>The increment and the six \<^verbatim>\<open>push\<close> calls of the loop body.\<close>

definition push_row :: "video_record \<Rightarrow> cluster_group \<Rightarrow> cluster_group" where
  "push_row row g =
     g\<lparr>group_count := group_count g + 1,
       group_videos := group_videos g @ [row],
       motion_values := motion_values g @ [or_zero (motion_mean row)],
       cut_rate_values := cut_rate_values g @ [or_zero (cut_rate_per_min row)],
       audio_rms_mean_values := audio_rms_mean_values g @ [or_zero (audio_rms_mean row)],
       audio_rms_std_values := audio_rms_std_values g @ [or_zero (audio_rms_std row)],
       visual_density_values := visual_density_values g @ [or_zero (visual_density row)]\<rparr>"

text \<open>
  \<^verbatim>\<open>clusterGroups\<close> is a JavaScript object keyed by the cluster label. It is an
  association list with the keys in the order of their creation; \<open>add_row\<close> is one
  iteration of \<^verbatim>\<open>data.forEach\<close>.
\<close>

definition add_row :: "(int \<times> cluster_group) list \<Rightarrow> video_record \<Rightarrow> (int \<times> cluster_group) list" where
  "add_row groups row =
     (let c = row_cluster row;
          groups' = (if map_of groups c = None then groups @ [(c, new_group c)] else groups)
      in map (\<lambda>(k, g). if k = c then (k, push_row row g) else (k, g)) groups')"

definition clusterGroups :: "video_record list \<Rightarrow> (int \<times> cluster_group) list" where
  "clusterGroups data = foldl add_row [] data"

text \<open>
  \<^verbatim>\<open>Object.values\<close> lists the values of the keys that are array indices
  (integers from 0 to \<open>2^32 - 2\<close>) in ascending order first, then the values of the
  other keys in the order of their creation.
\<close>

definition is_array_index :: "int \<Rightarrow> bool" where
  "is_array_index k \<longleftrightarrow> 0 \<le> k \<and> k < 4294967295"

definition object_values :: "(int \<times> 'v) list \<Rightarrow> 'v list" where
  "object_values obj =
     map snd (sort_key fst (filter (\<lambda>kv. is_array_index (fst kv)) obj)
              @ filter (\<lambda>kv. \<not> is_array_index (fst kv)) obj)"

text \<open>
  The three helpers of the \<^verbatim>\<open>map\<close> callback. On an empty array JavaScript gives
  \<^verbatim>\<open>0 / 0 = NaN\<close>, \<^verbatim>\<open>Math.min() = Infinity\<close> and \<^verbatim>\<open>Math.max() = -Infinity\<close>.
\<close>

definition avg :: "rat list \<Rightarrow> rat option" where
  "avg arr = (if arr = [] then None else Some (foldl (\<lambda>a b. a + b) 0 arr / of_nat (length arr)))"

fun min_arr :: "rat list \<Rightarrow> rat option" where
  "min_arr [] = None"
| "min_arr (x # xs) = Some (foldl min x xs)"

fun max_arr :: "rat list \<Rightarrow> rat option" where
  "max_arr [] = None"
| "max_arr (x # xs) = Some (foldl max x xs)"

definition group_stats :: "cluster_group \<Rightarrow> cluster_stats option" where
  "group_stats g = do {
     a_motion \<leftarrow> avg (motion_values g);
     lo_motion \<leftarrow> min_arr (motion_values g);
     hi_motion \<leftarrow> max_arr (motion_values g);
     a_cut \<leftarrow> avg (cut_rate_values g);
     lo_cut \<leftarrow> min_arr (cut_rate_values g);
     hi_cut \<leftarrow> max_arr (cut_rate_values g);
     a_mean \<leftarrow> avg (audio_rms_mean_values g);
     a_std \<leftarrow> avg (audio_rms_std_values g);
     a_density \<leftarrow> avg (visual_density_values g);
     lo_density \<leftarrow> min_arr (visual_density_values g);
     hi_density \<leftarrow> max_arr (visual_density_values g);
     Some \<lparr>cluster = group_cluster g, count = group_count g,
           avg_motion = a_motion, min_motion = lo_motion, max_motion = hi_motion,
           avg_cut_rate = a_cut, min_cut_rate = lo_cut, max_cut_rate = hi_cut,
           avg_audio_rms_mean = a_mean, avg_audio_rms_std = a_std,
           avg_visual_density = a_density, min_visual_density = lo_density,
           max_visual_density = hi_density, videos = group_videos g\<rparr>
   }"

text \<open>
  \<open>those\<close> collects the entries; the result is \<open>None\<close> only if some entry has a
  non-finite field. The comparator \<^verbatim>\<open>a.cluster - b.cluster\<close> orders by the numeric
  label and \<^verbatim>\<open>Array.prototype.sort\<close> is stable, as \<open>sort_key\<close> is.
\<close>

definition calculateClusterStats :: "video_record list \<Rightarrow> cluster_stats list option" where
  "calculateClusterStats data =
     map_option (sort_key cluster) (those (map group_stats (object_values (clusterGroups data))))"

section \<open>The generation spec document and the component state\<close>

record visual_style =
  visual_complexity :: string
  detail_level :: string
  consistency :: string

text \<open>
  A piece of rendered text: characters, or the exponent notation that JavaScript
  switches to for a number of magnitude \<open>10^21\<close> or more, which depends on the double
  and is kept symbolic.
\<close>

datatype piece = Chars string | Exponential rat

record motion_profile =
  camera_movement :: string
  motion_intensity :: int
  motion_range :: "piece list"
  pacing :: string
  cuts_per_minute :: int
  cut_rate_range :: "piece list"

record audio_profile =
  volume_level :: string
  dynamic_range :: string
  profile_audio_rms_mean :: piece
  profile_audio_rms_std :: piece

record base_prompt_components =
  visual_style :: visual_style
  motion_profile :: motion_profile
  audio_profile :: audio_profile

record trend_tokens =
  enabled :: bool
  tokens :: "string list"
  usage_note :: string
  application_strategy :: string

record constraints =
  sample_count :: nat
  variation_strategy :: string

record generation_hints =
  hints_note :: string

record generation_spec =
  cluster_id :: int
  generation_approach :: string
  base_prompt_components :: base_prompt_components
  trend_tokens :: trend_tokens
  constraints :: constraints
  generation_hints :: generation_hints

text \<open>
  The component state, one field per \<^verbatim>\<open>useState\<close> hook that the modelled functions
  read or write. \<open>None\<close> in \<open>clusterStats\<close> and \<open>selectedCluster\<close> is \<^verbatim>\<open>null\<close>; the
  three objects keyed by cluster label are maps. The two raw tables kept for display
  (\<^verbatim>\<open>interpretationData\<close>, \<^verbatim>\<open>clusterResults\<close>) are read by none of them.
\<close>

record state =
  clusterStats :: "cluster_stats list option"
  selectedCluster :: "int option"
  generationSpecs :: "int \<rightharpoonup> generation_spec"
  selectedApproaches :: "int \<rightharpoonup> string"
  trendTokens :: "int \<rightharpoonup> string list"

definition initial_state :: state where
  "initial_state =
     \<lparr>clusterStats = None, selectedCluster = None, generationSpecs = Map.empty,
      selectedApproaches = Map.empty, trendTokens = Map.empty\<rparr>"

section \<open>RadarNormalizer and ApproachClassifier\<close>

record radar_point =
  metric :: string
  radar_value :: "rat option"

text \<open>
  \<^verbatim>\<open>normalize\<close>, the inner helper of \<^verbatim>\<open>getRadarData\<close>. With no cluster at all the
  minimum is \<^verbatim>\<open>Infinity\<close> and the maximum \<^verbatim>\<open>-Infinity\<close>, and the quotient is \<^verbatim>\<open>NaN\<close>.
\<close>

definition normalize :: "rat \<Rightarrow> rat list \<Rightarrow> rat option" where
  "normalize value values =
     (case (min_arr values, max_arr values) of
        (Some lo, Some hi) \<Rightarrow>
          if hi = lo then Some 50 else Some ((value - lo) / (hi - lo) * 100)
      | _ \<Rightarrow> None)"

definition getRadarData :: "state \<Rightarrow> cluster_stats \<Rightarrow> radar_point list" where
  "getRadarData st stats =
     (case clusterStats st of
        None \<Rightarrow> []
      | Some cs \<Rightarrow>
          let motions = map avg_motion cs;
              cutRates = map avg_cut_rate cs;
              densities = map avg_visual_density cs;
              audioMeans = map avg_audio_rms_mean cs;
              audioStds = map avg_audio_rms_std cs
          in [\<lparr>metric = ''Motion'', radar_value = normalize (avg_motion stats) motions\<rparr>,
              \<lparr>metric = ''Cut Rate'', radar_value = normalize (avg_cut_rate stats) cutRates\<rparr>,
              \<lparr>metric = ''Visual Density'',
               radar_value = normalize (avg_visual_density stats) densities\<rparr>,
              \<lparr>metric = ''Audio Volume'',
               radar_value = normalize (avg_audio_rms_mean stats) audioMeans\<rparr>,
              \<lparr>metric = ''Audio Variance'',
               radar_value = normalize (avg_audio_rms_std stats) audioStds\<rparr>])"

record approach_suggestion =
  approach :: string
  confidence :: string
  reason :: string

record radar_metrics =
  motion :: rat
  cutRate :: rat
  visualDensity :: rat
  audioVolume :: rat
  audioVariance :: rat

text \<open>
  \<^verbatim>\<open>radarData.find(d => d.metric === name)?.value || 0\<close>: a missing entry, \<^verbatim>\<open>NaN\<close>
  and zero all give 0.
\<close>

definition metric_or_zero :: "radar_point list \<Rightarrow> string \<Rightarrow> rat" where
  "metric_or_zero radarData name =
     (case find (\<lambda>d. metric d = name) radarData of
        None \<Rightarrow> 0
      | Some d \<Rightarrow> or_zero (radar_value d))"

text \<open>The rule cascade of \<^verbatim>\<open>suggestApproach\<close>, each \<^verbatim>\<open>if\<close> with its \<^verbatim>\<open>return\<close>.\<close>

definition cascade :: "radar_metrics \<Rightarrow> approach_suggestion" where
  "cascade metrics =
     (if motion metrics > 60 \<and> cutRate metrics > 60 then
        \<lparr>approach = ''motion-focused'', confidence = ''high'',
         reason = ''High motion + fast cuts = movement-driven content''\<rparr>
      else if visualDensity metrics > 70 then
        \<lparr>approach = ''image-conditioned'', confidence = ''high'',
         reason = ''Strong visual composition and density''\<rparr>
      else if visualDensity metrics > 50 \<and> motion metrics < 40 then
        \<lparr>approach = ''image-conditioned'', confidence = ''medium'',
         reason = ''Visual-focused with minimal movement''\<rparr>
      else if motion metrics > 70 then
        \<lparr>approach = ''motion-focused'', confidence = ''medium'',
         reason = ''Significant camera/subject movement''\<rparr>
      else if audioVariance metrics > 70 \<or> audioVolume metrics > 70 then
        \<lparr>approach = ''text-driven'', confidence = ''medium'',
         reason = ''Distinctive audio characteristics suggest narrative/thematic content''\<rparr>
      else
        \<lparr>approach = ''text-driven'', confidence = ''low'',
         reason = ''Balanced metrics - best suited for conceptual/thematic generation''\<rparr>)"

text \<open>
  Before any table is loaded the function returns the bare string
  \<^verbatim>\<open>'text-driven'\<close>, not a suggestion object.
\<close>

datatype suggested = Bare string | Suggestion approach_suggestion

definition radar_metrics_of :: "radar_point list \<Rightarrow> radar_metrics" where
  "radar_metrics_of radarData =
     \<lparr>motion = metric_or_zero radarData ''Motion'',
      cutRate = metric_or_zero radarData ''Cut Rate'',
      visualDensity = metric_or_zero radarData ''Visual Density'',
      audioVolume = metric_or_zero radarData ''Audio Volume'',
      audioVariance = metric_or_zero radarData ''Audio Variance''\<rparr>"

definition suggestApproach :: "state \<Rightarrow> cluster_stats \<Rightarrow> suggested" where
  "suggestApproach st stats =
     (case clusterStats st of
        None \<Rightarrow> Bare ''text-driven''
      | Some _ \<Rightarrow> Suggestion (cascade (radar_metrics_of (getRadarData st stats))))"

section \<open>Selections and trend tokens\<close>

definition handleApproachChange :: "state \<Rightarrow> int \<Rightarrow> string \<Rightarrow> state" where
  "handleApproachChange st c a = st\<lparr>selectedApproaches := (selectedApproaches st)(c \<mapsto> a)\<rparr>"

text \<open>
  \<^verbatim>\<open>String.prototype.trim\<close> strips white space from both ends. Which code units count
  as white space is fixed by the language, not by this repository; it is the
  parameter \<open>ws\<close>.
\<close>

definition trim :: "(char \<Rightarrow> bool) \<Rightarrow> string \<Rightarrow> string" where
  "trim ws s = rev (dropWhile ws (rev (dropWhile ws s)))"

text \<open>\<^verbatim>\<open>trendTokens[cluster] || []\<close>: an array is never falsy.\<close>

definition current_tokens :: "state \<Rightarrow> int \<Rightarrow> string list" where
  "current_tokens st c = (case trendTokens st c of None \<Rightarrow> [] | Some ts \<Rightarrow> ts)"

definition addTrendToken :: "(char \<Rightarrow> bool) \<Rightarrow> state \<Rightarrow> int \<Rightarrow> string \<Rightarrow> state" where
  "addTrendToken ws st c token =
     (if trim ws token = [] then st
      else let current = current_tokens st c in
        if length current \<ge> 3 then st
        else if trim ws token \<in> set current then st
        else st\<lparr>trendTokens := (trendTokens st)(c \<mapsto> current @ [trim ws token])\<rparr>)"

text \<open>\<^verbatim>\<open>current.filter((_, i) => i !== index)\<close>.\<close>

definition removeTrendToken :: "state \<Rightarrow> int \<Rightarrow> nat \<Rightarrow> state" where
  "removeTrendToken st c index =
     (let current = current_tokens st c
      in st\<lparr>trendTokens :=
              (trendTokens st)(c \<mapsto> map snd (filter (\<lambda>p. fst p \<noteq> index) (enumerate 0 current)))\<rparr>)"

section \<open>SpecBuilder: generateSpec\<close>

text \<open>
  \<^verbatim>\<open>Math.round\<close> takes the nearest integer and, of two equally near, the one towards
  plus infinity.
\<close>

definition js_round :: "rat \<Rightarrow> int" where
  "js_round x = \<lfloor>x + 1 / 2\<rfloor>"

fun decimal :: "nat \<Rightarrow> string" where
  "decimal n =
     (if n < 10 then [char_of (48 + n)] else decimal (n div 10) @ [char_of (48 + n mod 10)])"

declare decimal.simps [simp del]

text \<open>An integer interpolated into a template literal.\<close>

definition int_text :: "int \<Rightarrow> piece" where
  "int_text n =
     (if \<bar>n\<bar> \<ge> 10 ^ 21 then Exponential (of_int n)
      else Chars ((if n < 0 then ''-'' else []) @ decimal (nat \<bar>n\<bar>)))"

text \<open>
  \<^verbatim>\<open>Number.prototype.toFixed\<close> with \<open>f\<close> fraction digits, as the language defines it:
  the sign first, then the integer \<open>n\<close> nearest to \<open>x * 10^f\<close> (the larger of two),
  its digits padded with zeros to more than \<open>f\<close> places, and the point.
\<close>

definition toFixed :: "nat \<Rightarrow> rat \<Rightarrow> piece" where
  "toFixed f x =
     (let s = (if x < 0 then ''-'' else []);
          y = \<bar>x\<bar>
      in if y \<ge> 10 ^ 21 then Exponential x
         else
           let n = nat \<lfloor>y * 10 ^ f + 1 / 2\<rfloor>;
               m = decimal n;
               m' = (if f = 0 then m
                     else
                       let padded = replicate (Suc f - length m) (CHR ''0'') @ m;
                           k = length padded
                       in take (k - f) padded @ ''.'' @ drop (k - f) padded)
           in Chars (s @ m'))"

text \<open>\<^verbatim>\<open>selectedApproaches[cluster] || 'text-driven'\<close>: absent and empty are falsy.\<close>

definition chosen_approach :: "state \<Rightarrow> int \<Rightarrow> string" where
  "chosen_approach st c =
     (case selectedApproaches st c of
        None \<Rightarrow> ''text-driven''
      | Some a \<Rightarrow> if a = [] then ''text-driven'' else a)"

text \<open>The object literal \<^verbatim>\<open>spec\<close> of \<^verbatim>\<open>generateSpec\<close>.\<close>

definition spec_literal :: "int \<Rightarrow> cluster_stats \<Rightarrow> string \<Rightarrow> string list \<Rightarrow> generation_spec" where
  "spec_literal c stats approach' tokens' =
     \<lparr>cluster_id = c,
      generation_approach = approach',
      base_prompt_components =
        \<lparr>visual_style =
           \<lparr>visual_complexity =
              (if avg_visual_density stats > 6 / 10 then ''high''
               else if avg_visual_density stats > 3 / 10 then ''medium'' else ''low''),
            detail_level =
              (if avg_visual_density stats > 5 / 10 then ''detailed'' else ''simplified''),
            consistency = ''within_cluster_variance''\<rparr>,
         motion_profile =
           \<lparr>camera_movement =
              (if avg_motion stats > 6 / 10 then ''dynamic''
               else if avg_motion stats > 3 / 10 then ''moderate'' else ''static''),
            motion_intensity = js_round (avg_motion stats * 10),
            motion_range =
              [toFixed 2 (min_motion stats), Chars '' - '', toFixed 2 (max_motion stats)],
            pacing =
              (if avg_cut_rate stats > 120 then ''fast''
               else if avg_cut_rate stats > 60 then ''medium'' else ''slow''),
            cuts_per_minute = js_round (avg_cut_rate stats),
            cut_rate_range =
              [int_text (js_round (min_cut_rate stats)), Chars '' - '',
               int_text (js_round (max_cut_rate stats))]\<rparr>,
         audio_profile =
           \<lparr>volume_level =
              (if avg_audio_rms_mean stats > 5 / 10 then ''high''
               else if avg_audio_rms_mean stats > 25 / 100 then ''medium'' else ''low''),
            dynamic_range =
              (if avg_audio_rms_std stats > 3 / 10 then ''high''
               else if avg_audio_rms_std stats > 15 / 100 then ''medium'' else ''low''),
            profile_audio_rms_mean = toFixed 3 (avg_audio_rms_mean stats),
            profile_audio_rms_std = toFixed 3 (avg_audio_rms_std stats)\<rparr>\<rparr>,
      trend_tokens =
        \<lparr>enabled = (length tokens' > 0),
         tokens = tokens',
         usage_note =
           ''Optional 1-3 word modifiers appended to base prompt to reflect current trends within cluster'',
         application_strategy = ''Randomly select 0-2 tokens per generation for variance''\<rparr>,
      constraints =
        \<lparr>sample_count = count stats,
         variation_strategy =
           (if approach' = ''image-conditioned'' then ''vary_seed_image''
            else if approach' = ''motion-focused'' then ''vary_motion_parameters''
            else ''vary_text_prompt'')\<rparr>,
      generation_hints =
        (if approach' = ''image-conditioned'' then
           \<lparr>hints_note =
              ''Use representative frames from cluster as seed images. Apply trend tokens to text conditioning.''\<rparr>
         else if approach' = ''motion-focused'' then
           \<lparr>hints_note =
              ''Emphasize camera movement and subject motion. Trend tokens can guide motion style variations.''\<rparr>
         else
           \<lparr>hints_note =
              ''Focus on thematic and conceptual elements. Trend tokens add current flavor to base themes.''\<rparr>)\<rparr>"

text \<open>
  \<^verbatim>\<open>clusterStats.find\<close> on \<^verbatim>\<open>null\<close> throws a \<^verbatim>\<open>TypeError\<close>; with no entry for the
  cluster the function returns at once; otherwise it stores the document and marks
  the cluster as selected.
\<close>

datatype fault = TypeError

definition generateSpec :: "state \<Rightarrow> int \<Rightarrow> fault + state" where
  "generateSpec st c =
     (case clusterStats st of
        None \<Rightarrow> Inl TypeError
      | Some cs \<Rightarrow>
          (case find (\<lambda>s. cluster s = c) cs of
             None \<Rightarrow> Inr st
           | Some stats \<Rightarrow>
               let approach' = chosen_approach st c;
                   tokens' = current_tokens st c;
                   spec = spec_literal c stats approach' tokens'
               in Inr (st\<lparr>generationSpecs := (generationSpecs st)(c \<mapsto> spec),
                          selectedCluster := Some c\<rparr>)))"

text \<open>
  The button of a cluster card: \<^verbatim>\<open>disabled={!selectedApproaches[stats.cluster]}\<close> and
  \<^verbatim>\<open>onClick={() => generateSpec(stats.cluster)}\<close>. A disabled button delivers no click.
\<close>

definition generate_disabled :: "state \<Rightarrow> int \<Rightarrow> bool" where
  "generate_disabled st c =
     (case selectedApproaches st c of None \<Rightarrow> True | Some a \<Rightarrow> a = [])"

definition click_generate :: "state \<Rightarrow> int \<Rightarrow> fault + state" where
  "click_generate st c = (if generate_disabled st c then Inr st else generateSpec st c)"

section \<open>Vocabulary of the statements\<close>

subsection \<open>The five metrics\<close>

datatype metric_id = Motion | CutRate | VisualDensity | AudioVolume | AudioVariance

fun axis_label :: "metric_id \<Rightarrow> string" where
  "axis_label Motion = ''Motion''"
| "axis_label CutRate = ''Cut Rate''"
| "axis_label VisualDensity = ''Visual Density''"
| "axis_label AudioVolume = ''Audio Volume''"
| "axis_label AudioVariance = ''Audio Variance''"

fun row_field :: "metric_id \<Rightarrow> video_record \<Rightarrow> rat option" where
  "row_field Motion = motion_mean"
| "row_field CutRate = cut_rate_per_min"
| "row_field VisualDensity = visual_density"
| "row_field AudioVolume = audio_rms_mean"
| "row_field AudioVariance = audio_rms_std"

fun group_values :: "metric_id \<Rightarrow> cluster_group \<Rightarrow> rat list" where
  "group_values Motion = motion_values"
| "group_values CutRate = cut_rate_values"
| "group_values VisualDensity = visual_density_values"
| "group_values AudioVolume = audio_rms_mean_values"
| "group_values AudioVariance = audio_rms_std_values"

fun stats_average :: "metric_id \<Rightarrow> cluster_stats \<Rightarrow> rat" where
  "stats_average Motion = avg_motion"
| "stats_average CutRate = avg_cut_rate"
| "stats_average VisualDensity = avg_visual_density"
| "stats_average AudioVolume = avg_audio_rms_mean"
| "stats_average AudioVariance = avg_audio_rms_std"

text \<open>Minimum and maximum, for the three metrics whose extremes the statistics keep.\<close>

fun stats_extremes :: "metric_id \<Rightarrow> cluster_stats \<Rightarrow> (rat \<times> rat) option" where
  "stats_extremes Motion s = Some (min_motion s, max_motion s)"
| "stats_extremes CutRate s = Some (min_cut_rate s, max_cut_rate s)"
| "stats_extremes VisualDensity s = Some (min_visual_density s, max_visual_density s)"
| "stats_extremes AudioVolume s = None"
| "stats_extremes AudioVariance s = None"

subsection \<open>What the aggregator is to compute\<close>

definition cluster_rows :: "int \<Rightarrow> video_record list \<Rightarrow> video_record list" where
  "cluster_rows c data = filter (\<lambda>r. row_cluster r = c) data"

definition column :: "(video_record \<Rightarrow> rat option) \<Rightarrow> video_record list \<Rightarrow> rat list" where
  "column f rows = map (\<lambda>r. or_zero (f r)) rows"

definition mean :: "rat list \<Rightarrow> rat" where
  "mean xs = sum_list xs / of_nat (length xs)"

definition group_of :: "video_record list \<Rightarrow> int \<Rightarrow> cluster_group" where
  "group_of data c =
     \<lparr>group_cluster = c,
      group_count = length (cluster_rows c data),
      group_videos = cluster_rows c data,
      motion_values = column motion_mean (cluster_rows c data),
      cut_rate_values = column cut_rate_per_min (cluster_rows c data),
      audio_rms_mean_values = column audio_rms_mean (cluster_rows c data),
      audio_rms_std_values = column audio_rms_std (cluster_rows c data),
      visual_density_values = column visual_density (cluster_rows c data)\<rparr>"

definition expected_stats :: "video_record list \<Rightarrow> int \<Rightarrow> cluster_stats" where
  "expected_stats data c =
     \<lparr>cluster = c,
      count = length (cluster_rows c data),
      avg_motion = mean (column motion_mean (cluster_rows c data)),
      min_motion = Min (set (column motion_mean (cluster_rows c data))),
      max_motion = Max (set (column motion_mean (cluster_rows c data))),
      avg_cut_rate = mean (column cut_rate_per_min (cluster_rows c data)),
      min_cut_rate = Min (set (column cut_rate_per_min (cluster_rows c data))),
      max_cut_rate = Max (set (column cut_rate_per_min (cluster_rows c data))),
      avg_audio_rms_mean = mean (column audio_rms_mean (cluster_rows c data)),
      avg_audio_rms_std = mean (column audio_rms_std (cluster_rows c data)),
      avg_visual_density = mean (column visual_density (cluster_rows c data)),
      min_visual_density = Min (set (column visual_density (cluster_rows c data))),
      max_visual_density = Max (set (column visual_density (cluster_rows c data))),
      videos = cluster_rows c data\<rparr>"

text \<open>The keys of a list in the order of their first occurrence.\<close>

definition first_seen :: "int list \<Rightarrow> int list" where
  "first_seen ks = rev (remdups (rev ks))"

text \<open>
  The order in which \<open>object_values\<close> visits a list of keys, and the order of the
  cluster labels of a table after grouping.
\<close>

definition enumeration_order :: "int list \<Rightarrow> int list" where
  "enumeration_order ks = sort (filter is_array_index ks) @ filter (\<lambda>k. \<not> is_array_index k) ks"

definition cluster_order :: "video_record list \<Rightarrow> int list" where
  "cluster_order data = enumeration_order (first_seen (map row_cluster data))"

subsection \<open>The rule table as the specification lists it\<close>

record rule =
  applies :: "radar_metrics \<Rightarrow> bool"
  outcome :: approach_suggestion

definition listed_rules :: "rule list" where
  "listed_rules =
     [\<lparr>applies = (\<lambda>m. motion m > 60 \<and> cutRate m > 60),
       outcome = \<lparr>approach = ''motion-focused'', confidence = ''high'',
                  reason = ''High motion + fast cuts = movement-driven content''\<rparr>\<rparr>,
      \<lparr>applies = (\<lambda>m. visualDensity m > 70),
       outcome = \<lparr>approach = ''image-conditioned'', confidence = ''high'',
                  reason = ''Strong visual composition and density''\<rparr>\<rparr>,
      \<lparr>applies = (\<lambda>m. visualDensity m > 50 \<and> motion m < 40),
       outcome = \<lparr>approach = ''image-conditioned'', confidence = ''medium'',
                  reason = ''Visual-focused with minimal movement''\<rparr>\<rparr>,
      \<lparr>applies = (\<lambda>m. motion m > 70),
       outcome = \<lparr>approach = ''motion-focused'', confidence = ''medium'',
                  reason = ''Significant camera/subject movement''\<rparr>\<rparr>,
      \<lparr>applies = (\<lambda>m. audioVariance m > 70 \<or> audioVolume m > 70),
       outcome = \<lparr>approach = ''text-driven'', confidence = ''medium'',
                  reason = ''Distinctive audio characteristics suggest narrative/thematic content''\<rparr>\<rparr>,
      \<lparr>applies = (\<lambda>m. True),
       outcome = \<lparr>approach = ''text-driven'', confidence = ''low'',
                  reason = ''Balanced metrics - best suited for conceptual/thematic generation''\<rparr>\<rparr>]"

fun first_match :: "rule list \<Rightarrow> radar_metrics \<Rightarrow> approach_suggestion option" where
  "first_match [] m = None"
| "first_match (r # rs) m = (if applies r m then Some (outcome r) else first_match rs m)"

subsection \<open>Sequences of token operations\<close>

datatype token_op = AddToken int string | RemoveToken int nat

fun token_step :: "(char \<Rightarrow> bool) \<Rightarrow> state \<Rightarrow> token_op \<Rightarrow> state" where
  "token_step ws st (AddToken c token) = addTrendToken ws st c token"
| "token_step ws st (RemoveToken c index) = removeTrendToken st c index"

definition tokens_ok :: "(char \<Rightarrow> bool) \<Rightarrow> string list \<Rightarrow> bool" where
  "tokens_ok ws ts \<longleftrightarrow>
     length ts \<le> 3 \<and> distinct ts \<and> list_all (\<lambda>t. t \<noteq> [] \<and> trim ws t = t) ts"

subsection \<open>Sample data\<close>

definition demo_stats :: "int \<Rightarrow> nat \<Rightarrow> rat \<Rightarrow> rat \<Rightarrow> rat \<Rightarrow> cluster_stats" where
  "demo_stats c n m k d =
     \<lparr>cluster = c, count = n, avg_motion = m, min_motion = m, max_motion = m,
      avg_cut_rate = k, min_cut_rate = k, max_cut_rate = k,
      avg_audio_rms_mean = 0, avg_audio_rms_std = 0,
      avg_visual_density = d, min_visual_density = d, max_visual_density = d, videos = []\<rparr>"

definition demo_clusters :: "cluster_stats list" where
  "demo_clusters = [demo_stats 1 4 (2 / 10) 30 (1 / 10), demo_stats 3 2 (7 / 10) 150 (8 / 10)]"

definition demo_state :: state where
  "demo_state = initial_state\<lparr>clusterStats := Some demo_clusters\<rparr>"

definition single_state :: state where
  "single_state = initial_state\<lparr>clusterStats := Some [demo_stats 5 9 (4 / 10) 75 (6 / 10)]\<rparr>"

definition demo_ops :: "token_op list" where
  "demo_ops =
     [AddToken 1 '' retro '', AddToken 1 ''retro'', AddToken 1 ''upbeat'', AddToken 1 ''  '',
      AddToken 1 ''minimal'', AddToken 1 ''fourth'', RemoveToken 1 0, AddToken 2 ''other'']"

definition blank :: "char \<Rightarrow> bool" where
  "blank ch \<longleftrightarrow> ch = CHR '' ''"

text \<open>The example of the specification: three rows of one cluster.\<close>

definition example_row :: "rat \<Rightarrow> rat \<Rightarrow> video_record" where
  "example_row m k =
     \<lparr>row_cluster = 1, motion_mean = Some m, cut_rate_per_min = Some k,
      audio_rms_mean = None, audio_rms_std = None, visual_density = None\<rparr>"

definition example_rows :: "video_record list" where
  "example_rows = [example_row (1 / 10) 20, example_row (3 / 10) 40, example_row (5 / 10) 60]"

definition example_stats :: cluster_stats where
  "example_stats =
     \<lparr>cluster = 1, count = 3, avg_motion = 3 / 10, min_motion = 1 / 10, max_motion = 5 / 10,
      avg_cut_rate = 40, min_cut_rate = 20, max_cut_rate = 60,
      avg_audio_rms_mean = 0, avg_audio_rms_std = 0,
      avg_visual_density = 0, min_visual_density = 0, max_visual_density = 0,
      videos = example_rows\<rparr>"

text \<open>
  The state after that table is loaded (\<^verbatim>\<open>setClusterStats\<close> receives the list of the
  aggregator) and an approach is chosen for its cluster, and the document that
  \<open>generateSpec\<close> then stores.
\<close>

definition example_state :: state where
  "example_state =
     handleApproachChange (initial_state\<lparr>clusterStats := calculateClusterStats example_rows\<rparr>)
       1 ''text-driven''"

definition example_document :: generation_spec where
  "example_document = spec_literal 1 example_stats ''text-driven'' []"

definition mixed_rows :: "video_record list" where
  "mixed_rows =
     [\<lparr>row_cluster = 7, motion_mean = None, cut_rate_per_min = Some 90,
       audio_rms_mean = None, audio_rms_std = None, visual_density = None\<rparr>,
      \<lparr>row_cluster = - 1, motion_mean = Some (4 / 10), cut_rate_per_min = None,
       audio_rms_mean = None, audio_rms_std = None, visual_density = None\<rparr>,
      \<lparr>row_cluster = 3, motion_mean = Some (9 / 10), cut_rate_per_min = Some 10,
       audio_rms_mean = None, audio_rms_std = None, visual_density = None\<rparr>,
      \<lparr>row_cluster = 7, motion_mean = None, cut_rate_per_min = Some 30,
       audio_rms_mean = None, audio_rms_std = None, visual_density = None\<rparr>]"

text \<open>
  Two states over the sample clusters: one in which an approach is chosen for
  cluster 3, and one in which a document was already built for cluster 1.
\<close>

definition demo_chosen :: state where
  "demo_chosen = handleApproachChange demo_state 3 ''motion-focused''"

definition demo_built :: state where
  "demo_built =
     demo_chosen\<lparr>generationSpecs :=
                   [1 \<mapsto> spec_literal 1 (demo_stats 1 4 (2 / 10) 30 (1 / 10)) ''text-driven'' []],
                 selectedCluster := Some 1\<rparr>"

section \<open>Facts about the sample data\<close>

lemma demo_state_simps:
  "clusterStats demo_state = Some demo_clusters"
  "selectedApproaches demo_state = Map.empty"
  "trendTokens demo_state = Map.empty"
  "generationSpecs demo_state = Map.empty"
  by (simp_all add: demo_state_def initial_state_def)

lemma demo_chosen_simps:
  "clusterStats demo_chosen = Some demo_clusters"
  "selectedApproaches demo_chosen = [3 \<mapsto> ''motion-focused'']"
  "trendTokens demo_chosen = Map.empty"
  by (simp_all add: demo_chosen_def handleApproachChange_def demo_state_simps)

lemma demo_built_simps:
  "clusterStats demo_built = Some demo_clusters"
  "selectedApproaches demo_built = [3 \<mapsto> ''motion-focused'']"
  "trendTokens demo_built = Map.empty"
  "generationSpecs demo_built 1
     = Some (spec_literal 1 (demo_stats 1 4 (2 / 10) 30 (1 / 10)) ''text-driven'' [])"
  by (simp_all add: demo_built_def demo_chosen_simps)

lemma find_demo_clusters:
  "find (\<lambda>s. cluster s = 1) demo_clusters = Some (demo_stats 1 4 (2 / 10) 30 (1 / 10))"
  "find (\<lambda>s. cluster s = 2) demo_clusters = None"
  "find (\<lambda>s. cluster s = 3) demo_clusters = Some (demo_stats 3 2 (7 / 10) 150 (8 / 10))"
  by (simp_all add: demo_clusters_def demo_stats_def)

section \<open>The aggregator computes the expected statistics\<close>

lemma foldl_add_sum_list: "foldl (\<lambda>a b. a + b) a xs = a + sum_list (xs :: rat list)"
  by (induction xs arbitrary: a) (simp_all add: add.assoc)

lemma avg_mean: "xs \<noteq> [] \<Longrightarrow> avg xs = Some (mean xs)"
  by (simp add: avg_def mean_def foldl_add_sum_list)

lemma foldl_min_Min: "foldl min x xs = Min (set (x # xs))" for x :: rat
proof (induction xs arbitrary: x)
  case Nil
  then show ?case by simp
next
  case (Cons y ys)
  have "Min (set (min x y # ys)) = Min (set (x # y # ys))"
    by (cases "ys = []") (simp_all add: min.assoc)
  with Cons show ?case by simp
qed

lemma foldl_max_Max: "foldl max x xs = Max (set (x # xs))" for x :: rat
proof (induction xs arbitrary: x)
  case Nil
  then show ?case by simp
next
  case (Cons y ys)
  have "Max (set (max x y # ys)) = Max (set (x # y # ys))"
    by (cases "ys = []") (simp_all add: max.assoc)
  with Cons show ?case by simp
qed

lemma min_arr_Min: "xs \<noteq> [] \<Longrightarrow> min_arr xs = Some (Min (set xs))"
  by (cases xs) (simp_all add: foldl_min_Min del: set_simps)

lemma max_arr_Max: "xs \<noteq> [] \<Longrightarrow> max_arr xs = Some (Max (set xs))"
  by (cases xs) (simp_all add: foldl_max_Max del: set_simps)

lemma column_Nil_iff: "column f rows = [] \<longleftrightarrow> rows = []"
  by (simp add: column_def)

lemma group_stats_group_of:
  assumes "cluster_rows c data \<noteq> []"
  shows "group_stats (group_of data c) = Some (expected_stats data c)"
  using assms
  by (simp add: group_stats_def group_of_def expected_stats_def avg_mean min_arr_Min max_arr_Max
      column_Nil_iff)

lemma cluster_rows_snoc:
  "cluster_rows c (xs @ [x]) = (if row_cluster x = c then cluster_rows c xs @ [x] else cluster_rows c xs)"
  by (simp add: cluster_rows_def)

lemma cluster_rows_Nil_iff: "cluster_rows c data = [] \<longleftrightarrow> c \<notin> row_cluster ` set data"
  by (auto simp: cluster_rows_def filter_empty_conv)

lemma push_row_group_of:
  "push_row x (group_of xs (row_cluster x)) = group_of (xs @ [x]) (row_cluster x)"
  by (simp add: push_row_def group_of_def cluster_rows_snoc column_def)

lemma group_of_other: "row_cluster x \<noteq> c \<Longrightarrow> group_of (xs @ [x]) c = group_of xs c"
  by (simp add: group_of_def cluster_rows_snoc)

lemma new_group_group_of: "c \<notin> row_cluster ` set xs \<Longrightarrow> new_group c = group_of xs c"
  using cluster_rows_Nil_iff [of c xs] by (simp add: new_group_def group_of_def column_def)

lemma first_seen_snoc:
  "first_seen (ks @ [k]) = (if k \<in> set ks then first_seen ks else first_seen ks @ [k])"
  by (simp add: first_seen_def)

lemma set_first_seen: "set (first_seen ks) = set ks"
  by (simp add: first_seen_def)

lemma distinct_first_seen: "distinct (first_seen ks)"
  by (simp add: first_seen_def)

lemma map_of_keyed_None: "map_of (map (\<lambda>k. (k, f k)) ks) c = None \<longleftrightarrow> c \<notin> set ks"
  by (induction ks) auto

lemma clusterGroups_snoc: "clusterGroups (xs @ [x]) = add_row (clusterGroups xs) x"
  by (simp add: clusterGroups_def)

text \<open>
  After the loop the object holds, under each label in the order of first occurrence,
  exactly the rows of that label and their five columns. The proof follows the loop:
  induction on the table from its end.
\<close>

lemma clusterGroups_eq:
  "clusterGroups data = map (\<lambda>c. (c, group_of data c)) (first_seen (map row_cluster data))"
proof (induction data rule: rev_induct)
  case Nil
  then show ?case by (simp add: clusterGroups_def first_seen_def)
next
  case (snoc x xs)
  let ?c = "row_cluster x"
  let ?ks' = "first_seen (map row_cluster (xs @ [x]))"
  let ?upd = "\<lambda>(k, g). if k = ?c then (k, push_row x g) else (k, g)"
  have ext: "(if map_of (clusterGroups xs) ?c = None
              then clusterGroups xs @ [(?c, new_group ?c)] else clusterGroups xs)
           = map (\<lambda>c. (c, group_of xs c)) ?ks'"
    by (simp add: snoc.IH map_of_keyed_None set_first_seen first_seen_snoc new_group_group_of)
  have "add_row (clusterGroups xs) x = map ?upd (map (\<lambda>c. (c, group_of xs c)) ?ks')"
    unfolding add_row_def Let_def ext ..
  also have "\<dots> = map (\<lambda>c. (c, group_of (xs @ [x]) c)) ?ks'"
    by (simp add: push_row_group_of group_of_other)
  finally show ?case by (simp only: clusterGroups_snoc)
qed

lemma insort_key_keyed:
  "insort_key fst (k, f k) (map (\<lambda>c. (c, f c)) ks) = map (\<lambda>c. (c, f c)) (insort k ks)"
  by (induction ks) simp_all

lemma sort_key_keyed:
  "sort_key fst (map (\<lambda>c. (c, f c)) ks) = map (\<lambda>c. (c, f c)) (sort ks)"
  by (induction ks) (simp_all add: insort_key_keyed)

lemma object_values_keyed:
  "object_values (map (\<lambda>c. (c, f c)) ks) = map f (enumeration_order ks)"
  by (simp add: object_values_def enumeration_order_def filter_map comp_def sort_key_keyed)

lemma set_enumeration_order: "set (enumeration_order ks) = set ks"
  by (auto simp: enumeration_order_def)

lemma distinct_enumeration_order: "distinct ks \<Longrightarrow> distinct (enumeration_order ks)"
  by (auto simp: enumeration_order_def)

lemma those_map_Some: "those (map (\<lambda>x. Some (f x)) xs) = Some (map f xs)"
  by (induction xs) simp_all

lemma set_cluster_order: "set (cluster_order data) = row_cluster ` set data"
  by (simp add: cluster_order_def set_enumeration_order set_first_seen)

lemma distinct_cluster_order: "distinct (cluster_order data)"
  by (simp add: cluster_order_def distinct_enumeration_order distinct_first_seen)

lemma cluster_expected_stats: "cluster (expected_stats data c) = c"
  by (simp add: expected_stats_def)

text \<open>
  The aggregator always returns a list: no entry has a non-finite field, because a
  group is created only together with its first row.
\<close>

lemma calculateClusterStats_eq:
  "calculateClusterStats data
     = Some (sort_key cluster (map (expected_stats data) (cluster_order data)))"
proof -
  have entry: "group_stats (group_of data c) = Some (expected_stats data c)"
    if "c \<in> set (cluster_order data)" for c
    using that by (simp add: set_cluster_order group_stats_group_of cluster_rows_Nil_iff)
  have "object_values (clusterGroups data) = map (group_of data) (cluster_order data)"
    by (simp only: clusterGroups_eq object_values_keyed cluster_order_def)
  then have "those (map group_stats (object_values (clusterGroups data)))
          = those (map (\<lambda>c. group_stats (group_of data c)) (cluster_order data))"
    by (simp add: comp_def)
  also have "\<dots> = those (map (\<lambda>c. Some (expected_stats data c)) (cluster_order data))"
    using entry by (simp cong: map_cong)
  also have "\<dots> = Some (map (expected_stats data) (cluster_order data))"
    by (rule those_map_Some)
  finally show ?thesis
    by (simp add: calculateClusterStats_def)
qed

lemma calculateClusterStats_sorted:
  assumes "calculateClusterStats data = Some out"
  shows "sorted_wrt (<) (map cluster out)"
    and "set out = expected_stats data ` row_cluster ` set data"
proof -
  let ?xs = "map (expected_stats data) (cluster_order data)"
  have out: "out = sort_key cluster ?xs"
    using assms by (simp add: calculateClusterStats_eq)
  have keys: "map cluster ?xs = cluster_order data"
    by (simp add: comp_def cluster_expected_stats)
  have "distinct (map cluster ?xs)"
    by (simp only: keys distinct_cluster_order)
  then have "distinct ?xs" and "inj_on cluster (set ?xs)"
    by (simp_all only: distinct_map)
  then have "distinct (map cluster out)"
    by (simp add: out distinct_map del: set_map)
  moreover have "sorted (map cluster out)"
    by (simp only: out sorted_sort_key)
  ultimately show "sorted_wrt (<) (map cluster out)"
    by (simp only: strict_sorted_iff)
  show "set out = expected_stats data ` row_cluster ` set data"
    by (simp add: out set_cluster_order)
qed



lemma column_all_missing:
  assumes "\<forall>r\<in>set rows. f r = None"
  shows "column f rows = replicate (length rows) 0"
  using assms by (induction rows) (simp_all add: column_def)

lemma mean_zeros: "mean (replicate n 0) = 0"
  by (simp add: mean_def sum_list_replicate)

lemma Min_zeros: "0 < n \<Longrightarrow> Min (set (replicate n (0::rat))) = 0"
  by simp

lemma Max_zeros: "0 < n \<Longrightarrow> Max (set (replicate n (0::rat))) = 0"
  by simp

lemma stats_average_expected:
  "stats_average m (expected_stats data c) = mean (column (row_field m) (cluster_rows c data))"
  by (cases m) (simp_all add: expected_stats_def)

lemma stats_extremes_expected:
  "stats_extremes m (expected_stats data c) = Some (lo, hi) \<Longrightarrow>
     lo = Min (set (column (row_field m) (cluster_rows c data)))
     \<and> hi = Max (set (column (row_field m) (cluster_rows c data)))"
  by (cases m) (auto simp: expected_stats_def)

lemma push_row_values:
  "group_values m (push_row row g) = group_values m g @ [or_zero (row_field m row)]"
  by (cases m) (simp_all add: push_row_def)

text \<open>
  Claim C5. A row that lacks a metric field adds 0 to that metric's list of its group
  and still increments the group's count; so every entry of the result counts all
  rows of its cluster and averages the fields with 0 for the missing ones, and when
  all rows of a cluster lack the field, the average, and the minimum and maximum
  where the statistics keep them, are 0.
\<close>

theorem missing_metric_counts_as_zero:
  assumes "calculateClusterStats data = Some out" and "s \<in> set out"
  shows "(row_field m row = None \<longrightarrow> group_values m (push_row row g) = group_values m g @ [0])
     \<and> group_count (push_row row g) = group_count g + 1
     \<and> count s = length (cluster_rows (cluster s) data)
     \<and> stats_average m s = mean (column (row_field m) (cluster_rows (cluster s) data))
     \<and> ((\<forall>r\<in>set data. row_cluster r = cluster s \<longrightarrow> row_field m r = None) \<longrightarrow>
           stats_average m s = 0
           \<and> (case stats_extremes m s of None \<Rightarrow> True | Some (lo, hi) \<Rightarrow> lo = 0 \<and> hi = 0))"
proof -
  from calculateClusterStats_sorted(2) [OF assms(1)] assms(2)
  obtain c where c: "c \<in> row_cluster ` set data" and s: "s = expected_stats data c"
    by blast
  let ?rows = "cluster_rows c data"
  have cs: "cluster s = c" by (simp add: s cluster_expected_stats)
  have rows: "0 < length ?rows"
    using c cluster_rows_Nil_iff [of c data] by simp
  have pushed: "row_field m row = None \<longrightarrow> group_values m (push_row row g) = group_values m g @ [0]"
    by (simp add: push_row_values)
  have counted: "group_count (push_row row g) = group_count g + 1"
    by (simp add: push_row_def)
  have cnt: "count s = length (cluster_rows (cluster s) data)"
    by (simp add: s expected_stats_def)
  have average: "stats_average m s = mean (column (row_field m) (cluster_rows (cluster s) data))"
    by (simp only: cs) (simp only: s stats_average_expected)
  have zero: "stats_average m s = 0
           \<and> (case stats_extremes m s of None \<Rightarrow> True | Some (lo, hi) \<Rightarrow> lo = 0 \<and> hi = 0)"
    if missing: "\<forall>r\<in>set data. row_cluster r = cluster s \<longrightarrow> row_field m r = None"
  proof -
    have "\<forall>r\<in>set ?rows. row_field m r = None"
      using missing by (simp add: cs cluster_rows_def)
    then have col: "column (row_field m) ?rows = replicate (length ?rows) 0"
      by (rule column_all_missing)
    have "stats_average m s = 0"
      by (simp only: s stats_average_expected col mean_zeros)
    moreover have "lo = 0 \<and> hi = 0" if "stats_extremes m s = Some (lo, hi)" for lo hi
      using stats_extremes_expected [of m data c lo hi] that rows
      by (simp add: s col)
    ultimately show ?thesis
      by (auto split: option.splits)
  qed
  show ?thesis
    using pushed counted cnt average zero by blast
qed

theorem missing_metric_counts_as_zero_witness:
  "map_option (map (\<lambda>s. (cluster s, count s, avg_motion s, min_motion s, max_motion s)))
      (calculateClusterStats mixed_rows)
     = Some [(- 1, 1, 4 / 10, 4 / 10, 4 / 10), (3, 1, 9 / 10, 9 / 10, 9 / 10), (7, 2, 0, 0, 0)]"
proof -
  obtain out where out: "calculateClusterStats mixed_rows = Some out"
    by (simp add: calculateClusterStats_eq)
  have "expected_stats mixed_rows 7 \<in> set out"
    using calculateClusterStats_sorted(2) [OF out] by (simp add: mixed_rows_def)
  from missing_metric_counts_as_zero [OF out this, of Motion]
  have "count (expected_stats mixed_rows 7) = length (cluster_rows 7 mixed_rows)"
    by (simp add: cluster_expected_stats)
  then show ?thesis
    by (simp add: calculateClusterStats_eq cluster_order_def enumeration_order_def first_seen_def
      is_array_index_def mixed_rows_def expected_stats_def cluster_rows_def column_def mean_def)
qed

lemma example_clusterGroups:
  "clusterGroups example_rows = [(1, group_of example_rows 1)]"
  by (simp add: clusterGroups_def example_rows_def example_row_def add_row_def new_group_def
      push_row_def group_of_def cluster_rows_def column_def)

lemma example_aggregate: "calculateClusterStats example_rows = Some [example_stats]"
proof -
  have listed: "object_values (clusterGroups example_rows) = [group_of example_rows 1]"
    by (simp add: example_clusterGroups object_values_def is_array_index_def)
  have entry: "group_stats (group_of example_rows 1) = Some example_stats"
    by (simp add: group_of_def cluster_rows_def column_def example_rows_def
        example_row_def group_stats_def avg_def example_stats_def)
  show ?thesis
    by (simp add: calculateClusterStats_def listed entry)
qed

lemma example_state_simps:
  "clusterStats example_state = Some [example_stats]"
  "selectedApproaches example_state 1 = Some ''text-driven''"
  "trendTokens example_state 1 = None"
  by (simp_all add: example_state_def handleApproachChange_def initial_state_def example_aggregate)

text \<open>
  Claim C1, as the specification states it, fails on its own example: the three rows
  give the averages it names, but an average motion of exactly 0.3 is not above 0.3
  and an average cut rate of 40 is not above 60, so the document stored for the
  cluster says static and slow, not moderate and medium.
\<close>

theorem example_profile_counterexample:
  "calculateClusterStats example_rows = Some [example_stats]
   \<and> generateSpec example_state 1
       = Inr (example_state\<lparr>generationSpecs := (generationSpecs example_state)(1 \<mapsto> example_document),
                           selectedCluster := Some 1\<rparr>)
   \<and> camera_movement (motion_profile (base_prompt_components example_document)) = ''static''
   \<and> camera_movement (motion_profile (base_prompt_components example_document)) \<noteq> ''moderate''
   \<and> pacing (motion_profile (base_prompt_components example_document)) = ''slow''
   \<and> pacing (motion_profile (base_prompt_components example_document)) \<noteq> ''medium''"
proof -
  have "find (\<lambda>s. cluster s = 1) [example_stats] = Some example_stats"
    by (simp add: example_stats_def)
  then have "generateSpec example_state 1
       = Inr (example_state\<lparr>generationSpecs := (generationSpecs example_state)(1 \<mapsto> example_document),
                           selectedCluster := Some 1\<rparr>)"
    by (simp add: generateSpec_def example_state_simps chosen_approach_def current_tokens_def
        example_document_def)
  moreover have "camera_movement (motion_profile (base_prompt_components example_document)) = ''static''"
    and "pacing (motion_profile (base_prompt_components example_document)) = ''slow''"
    by (simp_all add: example_document_def spec_literal_def example_stats_def)
  ultimately show ?thesis
    by (simp add: example_aggregate)
qed

text \<open>
  Claim C1, amended. For the rows with motion values 0.1, 0.3, 0.5 and cut rates
  20, 40, 60 the aggregator yields average motion 0.3, minimum 0.1, maximum 0.5 and
  average cut rate 40, and the generation spec built from these statistics, for any
  approach and any tokens, has camera movement static and pacing slow.
\<close>

theorem example_static_slow:
  "calculateClusterStats example_rows = Some [example_stats]
   \<and> avg_motion example_stats = 3 / 10 \<and> min_motion example_stats = 1 / 10
   \<and> max_motion example_stats = 5 / 10 \<and> avg_cut_rate example_stats = 40
   \<and> camera_movement (motion_profile (base_prompt_components
        (spec_literal c example_stats a ts))) = ''static''
   \<and> pacing (motion_profile (base_prompt_components
        (spec_literal c example_stats a ts))) = ''slow''
   \<and> (\<exists>st'. generateSpec (st\<lparr>clusterStats := calculateClusterStats example_rows\<rparr>) 1 = Inr st'
         \<and> map_option (\<lambda>d. (camera_movement (motion_profile (base_prompt_components d)),
                             pacing (motion_profile (base_prompt_components d))))
              (generationSpecs st' 1) = Some (''static'', ''slow''))"
proof -
  have stats: "avg_motion example_stats = 3 / 10" "min_motion example_stats = 1 / 10"
    "max_motion example_stats = 5 / 10" "avg_cut_rate example_stats = 40"
    by (simp_all add: example_stats_def)
  have profile: "camera_movement (motion_profile (base_prompt_components
        (spec_literal c example_stats a ts))) = ''static''"
    "pacing (motion_profile (base_prompt_components
        (spec_literal c example_stats a ts))) = ''slow''" for c a ts
    by (simp_all add: spec_literal_def stats)
  have "find (\<lambda>s. cluster s = 1) [example_stats] = Some example_stats"
    by (simp add: example_stats_def)
  then have "\<exists>st'. generateSpec (st\<lparr>clusterStats := calculateClusterStats example_rows\<rparr>) 1 = Inr st'
         \<and> map_option (\<lambda>d. (camera_movement (motion_profile (base_prompt_components d)),
                             pacing (motion_profile (base_prompt_components d))))
              (generationSpecs st' 1) = Some (''static'', ''slow'')"
    by (simp add: generateSpec_def example_aggregate Let_def profile)
  then show ?thesis
    using stats profile example_aggregate by blast
qed

theorem example_static_slow_witness:
  "pacing (motion_profile (base_prompt_components
        (spec_literal 1 example_stats ''motion-focused'' [''retro'']))) = ''slow''
   \<and> camera_movement (motion_profile (base_prompt_components
        (spec_literal 1 example_stats ''motion-focused'' [''retro'']))) = ''static''"
  using example_static_slow [of 1 "''motion-focused''" "[''retro'']" demo_state]
  by simp

section \<open>Radar normalisation\<close>

lemma normalize_nonempty:
  assumes "vs \<noteq> []"
  shows "normalize v vs =
     Some (if Max (set vs) = Min (set vs) then 50
           else (v - Min (set vs)) / (Max (set vs) - Min (set vs)) * 100)"
  using assms by (simp add: normalize_def min_arr_Min max_arr_Max)

lemma normalize_constant:
  assumes "v \<in> set vs" and "\<forall>t\<in>set vs. t = v"
  shows "normalize v vs = Some 50"
proof -
  have ne: "vs \<noteq> []" using assms(1) by auto
  have same: "t = v" if "t \<in> set vs" for t
    using assms(2) that by blast
  have "Min (set vs) = v"
  proof (rule Min_eqI)
    show "finite (set vs)" by simp
    show "v \<le> y" if "y \<in> set vs" for y
      using same [OF that] by (simp only: order_refl)
    show "v \<in> set vs" by (rule assms(1))
  qed
  moreover have "Max (set vs) = v"
  proof (rule Max_eqI)
    show "finite (set vs)" by simp
    show "y \<le> v" if "y \<in> set vs" for y
      using same [OF that] by (simp only: order_refl)
    show "v \<in> set vs" by (rule assms(1))
  qed
  ultimately show ?thesis
    by (simp add: normalize_nonempty [OF ne])
qed

lemma normalize_spread:
  assumes "v \<in> set vs" and "\<exists>t\<in>set vs. t \<noteq> v"
  shows "\<exists>r. normalize v vs = Some r \<and> 0 \<le> r \<and> r \<le> 100
           \<and> ((\<forall>t\<in>set vs. v \<le> t) \<longrightarrow> r = 0)
           \<and> ((\<forall>t\<in>set vs. t \<le> v) \<longrightarrow> r = 100)"
proof -
  define lo where "lo = Min (set vs)"
  define hi where "hi = Max (set vs)"
  have ne: "vs \<noteq> []" using assms(1) by auto
  obtain t where t: "t \<in> set vs" "t \<noteq> v" using assms(2) by blast
  have "lo \<le> v" unfolding lo_def by (rule Min_le) (use assms(1) in simp_all)
  moreover have "v \<le> hi" unfolding hi_def by (rule Max_ge) (use assms(1) in simp_all)
  moreover have "lo \<le> t" unfolding lo_def by (rule Min_le) (use t(1) in simp_all)
  moreover have "t \<le> hi" unfolding hi_def by (rule Max_ge) (use t(1) in simp_all)
  ultimately have bounds: "lo \<le> v" "v \<le> hi" and lt: "lo < hi"
    using t(2) by linarith+
  define q where "q = (v - lo) / (hi - lo)"
  have "normalize v vs = Some (if hi = lo then 50 else (v - lo) / (hi - lo) * 100)"
    unfolding lo_def hi_def by (rule normalize_nonempty [OF ne])
  then have val: "normalize v vs = Some (q * 100)"
    using lt by (simp add: q_def)
  have pos: "0 < hi - lo" using lt by simp
  have "0 \<le> q"
    unfolding q_def using bounds(1) pos by (intro divide_nonneg_pos) simp_all
  moreover have "q \<le> 1"
    unfolding q_def using bounds(2) pos by (simp add: divide_le_eq)
  ultimately have range: "0 \<le> q * 100" "q * 100 \<le> 100" by linarith+
  have lowest: "q * 100 = 0" if "\<forall>t\<in>set vs. v \<le> t"
  proof -
    have "Min (set vs) = v" using that assms(1) by (intro Min_eqI) simp_all
    then have "lo = v" by (simp only: lo_def)
    then show ?thesis by (simp add: q_def)
  qed
  have highest: "q * 100 = 100" if "\<forall>t\<in>set vs. t \<le> v"
  proof -
    have "Max (set vs) = v" using that assms(1) by (intro Max_eqI) simp_all
    then have "hi = v" by (simp only: hi_def)
    then show ?thesis using pos by (simp add: q_def)
  qed
  show ?thesis
    by (intro exI [of _ "q * 100"] conjI impI val range lowest highest)
qed

lemma find_radar_point:
  assumes "clusterStats st = Some cs"
  shows "find (\<lambda>d. metric d = axis_label ax) (getRadarData st s)
     = Some \<lparr>metric = axis_label ax,
             radar_value = normalize (stats_average ax s) (map (stats_average ax) cs)\<rparr>"
  using assms by (cases ax) (simp_all add: getRadarData_def)

text \<open>
  Claim C3. With a non-empty list of statistics loaded, and for each of the five
  metrics: the radar entry of a cluster of the list is 50 when all clusters have the
  same average; otherwise it lies between 0 and 100, is 0 for a cluster whose
  average is the least and 100 for one whose average is the greatest. A list of one
  cluster is the first case for all five metrics.
\<close>

theorem radar_min_max_normalisation:
  assumes "clusterStats st = Some cs" and "s \<in> set cs"
  shows "\<exists>v. find (\<lambda>d. metric d = axis_label ax) (getRadarData st s)
               = Some \<lparr>metric = axis_label ax, radar_value = Some v\<rparr>
     \<and> (if \<forall>t\<in>set cs. stats_average ax t = stats_average ax s then v = 50
        else 0 \<le> v \<and> v \<le> 100
           \<and> ((\<forall>t\<in>set cs. stats_average ax s \<le> stats_average ax t) \<longrightarrow> v = 0)
           \<and> ((\<forall>t\<in>set cs. stats_average ax t \<le> stats_average ax s) \<longrightarrow> v = 100))"
proof (cases "\<forall>t\<in>set cs. stats_average ax t = stats_average ax s")
  case True
  let ?vs = "map (stats_average ax) cs"
  have "stats_average ax s \<in> set ?vs"
    using assms(2) by (simp only: set_map) (rule imageI)
  moreover have "\<forall>t\<in>set ?vs. t = stats_average ax s"
    using True by (simp only: set_map) blast
  ultimately have "normalize (stats_average ax s) ?vs = Some 50"
    by (rule normalize_constant)
  then have found: "find (\<lambda>d. metric d = axis_label ax) (getRadarData st s)
               = Some \<lparr>metric = axis_label ax, radar_value = Some 50\<rparr>"
    by (simp only: find_radar_point [OF assms(1)])
  show ?thesis
    by (intro exI [of _ 50] conjI, rule found, subst if_P [OF True], rule refl)
next
  case False
  let ?vs = "map (stats_average ax) cs"
  have "stats_average ax s \<in> set ?vs"
    using assms(2) by (simp only: set_map) (rule imageI)
  moreover have "\<exists>t\<in>set ?vs. t \<noteq> stats_average ax s"
    using False by (simp only: set_map) blast
  ultimately obtain r where r: "normalize (stats_average ax s) ?vs = Some r"
      "0 \<le> r" "r \<le> 100"
      "(\<forall>t\<in>set ?vs. stats_average ax s \<le> t) \<longrightarrow> r = 0"
      "(\<forall>t\<in>set ?vs. t \<le> stats_average ax s) \<longrightarrow> r = 100"
    using normalize_spread [of "stats_average ax s" ?vs] by blast
  have found: "find (\<lambda>d. metric d = axis_label ax) (getRadarData st s)
               = Some \<lparr>metric = axis_label ax, radar_value = Some r\<rparr>"
    by (simp only: find_radar_point [OF assms(1)] r(1))
  have lowest: "r = 0" if "\<forall>t\<in>set cs. stats_average ax s \<le> stats_average ax t"
  proof -
    have "\<forall>t\<in>set ?vs. stats_average ax s \<le> t"
      using that by (simp only: set_map) blast
    with r(4) show ?thesis by blast
  qed
  have highest: "r = 100" if "\<forall>t\<in>set cs. stats_average ax t \<le> stats_average ax s"
  proof -
    have "\<forall>t\<in>set ?vs. t \<le> stats_average ax s"
      using that by (simp only: set_map) blast
    with r(5) show ?thesis by blast
  qed
  have inside: "0 \<le> r \<and> r \<le> 100
           \<and> ((\<forall>t\<in>set cs. stats_average ax s \<le> stats_average ax t) \<longrightarrow> r = 0)
           \<and> ((\<forall>t\<in>set cs. stats_average ax t \<le> stats_average ax s) \<longrightarrow> r = 100)"
    using r(2,3) lowest highest by blast
  show ?thesis
    by (intro exI [of _ r] conjI, rule found, subst if_not_P [OF False], rule inside)
qed

theorem radar_min_max_normalisation_witness:
  "map radar_value (getRadarData demo_state (demo_stats 1 4 (2 / 10) 30 (1 / 10)))
     = [Some 0, Some 0, Some 0, Some 50, Some 50]
   \<and> map radar_value (getRadarData demo_state (demo_stats 3 2 (7 / 10) 150 (8 / 10)))
     = [Some 100, Some 100, Some 100, Some 50, Some 50]
   \<and> map radar_value (getRadarData single_state (demo_stats 5 9 (4 / 10) 75 (6 / 10)))
     = [Some 50, Some 50, Some 50, Some 50, Some 50]"
proof -
  have "clusterStats demo_state = Some demo_clusters"
    by (rule demo_state_simps)
  moreover have "demo_stats 1 4 (2 / 10) 30 (1 / 10) \<in> set demo_clusters"
    by (simp add: demo_clusters_def)
  ultimately have "\<exists>v. find (\<lambda>d. metric d = axis_label Motion)
                     (getRadarData demo_state (demo_stats 1 4 (2 / 10) 30 (1 / 10)))
               = Some \<lparr>metric = axis_label Motion, radar_value = Some v\<rparr>"
    using radar_min_max_normalisation [of demo_state demo_clusters _ Motion] by blast
  then show ?thesis
    by (simp add: getRadarData_def demo_state_simps single_state_def initial_state_def
        demo_clusters_def demo_stats_def normalize_def)
qed

section \<open>The approach classifier\<close>

text \<open>
  Claim C2. For every choice of the five normalised values the cascade returns one
  suggestion, the outcome of the first rule of the listed table that applies; when
  motion and cut rate both exceed 60 it is motion-focused with high confidence,
  whatever the other three values are. With a table loaded, \<open>suggestApproach\<close> is
  this cascade applied to the radar values.
\<close>

theorem cascade_first_match:
  "first_match listed_rules m = Some (cascade m)
   \<and> (motion m > 60 \<and> cutRate m > 60 \<longrightarrow>
        approach (cascade m) = ''motion-focused'' \<and> confidence (cascade m) = ''high'')
   \<and> (\<forall>st stats cs. clusterStats st = Some cs \<longrightarrow>
        suggestApproach st stats = Suggestion (cascade (radar_metrics_of (getRadarData st stats))))"
  by (simp add: listed_rules_def cascade_def suggestApproach_def)

theorem cascade_first_match_witness:
  "cascade \<lparr>motion = 65, cutRate = 65, visualDensity = 80, audioVolume = 0, audioVariance = 0\<rparr>
     = \<lparr>approach = ''motion-focused'', confidence = ''high'',
        reason = ''High motion + fast cuts = movement-driven content''\<rparr>
   \<and> first_match listed_rules
        \<lparr>motion = 65, cutRate = 65, visualDensity = 80, audioVolume = 0, audioVariance = 0\<rparr>
     = Some \<lparr>approach = ''motion-focused'', confidence = ''high'',
        reason = ''High motion + fast cuts = movement-driven content''\<rparr>"
  using cascade_first_match
    [of "\<lparr>motion = 65, cutRate = 65, visualDensity = 80, audioVolume = 0, audioVariance = 0\<rparr>"]
  by (simp add: cascade_def)

section \<open>Trend tokens\<close>

lemma trim_idem: "trim ws (trim ws s) = trim ws s"
proof -
  have a: "dropWhile ws (rev (dropWhile ws (rev xs))) = rev (dropWhile ws (rev xs))"
    if "xs = [] \<or> \<not> ws (hd xs)" for xs
    using that
  proof (induction xs rule: rev_induct)
    case Nil
    then show ?case by simp
  next
    case (snoc x xs)
    then show ?case by (cases xs) (auto split: if_splits)
  qed
  have b: "dropWhile ws s = [] \<or> \<not> ws (hd (dropWhile ws s))"
    by (metis hd_dropWhile)
  show ?thesis
    unfolding trim_def using a [OF b] by simp
qed

lemma drop_index_set: "set (map snd (filter (\<lambda>p. fst p \<noteq> i) (enumerate n xs))) \<subseteq> set xs"
  by (induction xs arbitrary: n) auto

lemma drop_index_length: "length (map snd (filter (\<lambda>p. fst p \<noteq> i) (enumerate n xs))) \<le> length xs"
  by (induction xs arbitrary: n) (auto simp: le_SucI)

lemma drop_index_distinct:
  "distinct xs \<Longrightarrow> distinct (map snd (filter (\<lambda>p. fst p \<noteq> i) (enumerate n xs)))"
proof (induction xs arbitrary: n)
  case Nil
  then show ?case by simp
next
  case (Cons x xs)
  then show ?case using drop_index_set [of i "Suc n" xs] by auto
qed

lemma tokens_ok_drop_index:
  assumes "tokens_ok ws ts"
  shows "tokens_ok ws (map snd (filter (\<lambda>p. fst p \<noteq> i) (enumerate 0 ts)))"
proof -
  let ?ts' = "map snd (filter (\<lambda>p. fst p \<noteq> i) (enumerate 0 ts))"
  have "length ?ts' \<le> 3"
    using assms drop_index_length [of i 0 ts] by (simp add: tokens_ok_def)
  moreover have "distinct ?ts'"
    using assms drop_index_distinct [of ts i 0] by (simp add: tokens_ok_def)
  moreover have "list_all (\<lambda>t. t \<noteq> [] \<and> trim ws t = t) ?ts'"
    using assms drop_index_set [of i 0 ts] unfolding tokens_ok_def list_all_iff by blast
  ultimately show ?thesis by (simp add: tokens_ok_def)
qed

lemma tokens_ok_step:
  assumes "\<forall>c. tokens_ok ws (current_tokens st c)"
  shows "tokens_ok ws (current_tokens (token_step ws st op) c)"
proof (cases op)
  case (AddToken c' token)
  have ok: "tokens_ok ws (current_tokens st c)"
    using assms by simp
  show ?thesis
  proof (cases "c = c'")
    case True
    with ok AddToken show ?thesis
      by (auto simp: addTrendToken_def Let_def current_tokens_def tokens_ok_def trim_idem)
  next
    case False
    with ok AddToken show ?thesis
      by (auto simp: addTrendToken_def Let_def current_tokens_def)
  qed
next
  case (RemoveToken c' index)
  have ok: "tokens_ok ws (current_tokens st c)" "tokens_ok ws (current_tokens st c')"
    using assms by simp_all
  show ?thesis
  proof (cases "c = c'")
    case True
    with tokens_ok_drop_index [OF ok(2), of index] RemoveToken show ?thesis
      by (simp add: removeTrendToken_def Let_def current_tokens_def)
  next
    case False
    with ok(1) RemoveToken show ?thesis
      by (simp add: removeTrendToken_def Let_def current_tokens_def)
  qed
qed

lemma tokens_ok_run:
  assumes "\<forall>c. tokens_ok ws (current_tokens st c)"
  shows "tokens_ok ws (current_tokens (foldl (token_step ws) st ops) c)"
  using assms
proof (induction ops arbitrary: st c)
  case Nil
  then show ?case by simp
next
  case (Cons op ops)
  have "\<forall>c. tokens_ok ws (current_tokens (token_step ws st op) c)"
    using tokens_ok_step [OF Cons.prems] by blast
  then show ?case using Cons.IH by simp
qed

lemma tokens_ok_initial: "tokens_ok ws (current_tokens initial_state c)"
  by (simp add: tokens_ok_def current_tokens_def initial_state_def)

lemma tokens_ok_trimmed: "tokens_ok ws ts \<Longrightarrow> map (trim ws) ts = ts"
  by (simp add: tokens_ok_def list_all_iff map_idI)

text \<open>
  Claim C7. After any sequence of add and remove operations from the initial state,
  the token list of every cluster has at most three entries and no two of them are
  equal after trimming. Adding to a list of three, adding a token whose trimmed
  form is already present, and adding a token that is empty after trimming each
  return the state unchanged; the operation has no failing branch.
\<close>

theorem trend_tokens_bounded_distinct:
  "length (current_tokens (foldl (token_step ws) initial_state ops) c) \<le> 3
   \<and> distinct (map (trim ws) (current_tokens (foldl (token_step ws) initial_state ops) c))
   \<and> (length (current_tokens st c) \<ge> 3 \<or> trim ws token \<in> set (current_tokens st c)
        \<or> trim ws token = [] \<longrightarrow> addTrendToken ws st c token = st)"
proof -
  have ok: "tokens_ok ws (current_tokens (foldl (token_step ws) initial_state ops) c)"
    using tokens_ok_run tokens_ok_initial by blast
  have "length (current_tokens (foldl (token_step ws) initial_state ops) c) \<le> 3"
    using ok by (simp add: tokens_ok_def)
  moreover have "distinct (map (trim ws) (current_tokens (foldl (token_step ws) initial_state ops) c))"
    using ok tokens_ok_trimmed [OF ok] by (simp add: tokens_ok_def)
  moreover have "length (current_tokens st c) \<ge> 3 \<or> trim ws token \<in> set (current_tokens st c)
        \<or> trim ws token = [] \<longrightarrow> addTrendToken ws st c token = st"
    by (auto simp: addTrendToken_def Let_def)
  ultimately show ?thesis by blast
qed

theorem trend_tokens_bounded_distinct_witness:
  "current_tokens (foldl (token_step blank) initial_state demo_ops) 1 = [''upbeat'', ''minimal'']
   \<and> addTrendToken blank (foldl (token_step blank) initial_state demo_ops) 1 '' upbeat''
        = foldl (token_step blank) initial_state demo_ops"
  using trend_tokens_bounded_distinct
    [of blank demo_ops 1 "foldl (token_step blank) initial_state demo_ops" "'' upbeat''"]
  by (simp add: demo_ops_def blank_def addTrendToken_def removeTrendToken_def trim_def
      current_tokens_def initial_state_def Let_def enumerate_eq_zip)

section \<open>Building and storing a generation spec\<close>

lemma find_cluster_None: "c \<notin> cluster ` set cs \<Longrightarrow> find (\<lambda>s. cluster s = c) cs = None"
  by (auto simp: find_None_iff)

text \<open>
  Claim C10. With a list of statistics loaded, \<open>generateSpec\<close> for a cluster label
  that the list does not contain returns at once: the state, and with it the spec
  store and the selected cluster, is unchanged.
\<close>

theorem generateSpec_unknown_cluster:
  assumes "clusterStats st = Some cs" and "c \<notin> cluster ` set cs"
  shows "generateSpec st c = Inr st"
  using assms by (simp add: generateSpec_def find_cluster_None)

theorem generateSpec_unknown_cluster_witness:
  "generateSpec demo_built 2 = Inr demo_built"
  using generateSpec_unknown_cluster [of demo_built demo_clusters 2]
  by (simp add: demo_built_simps demo_clusters_def demo_stats_def)

text \<open>
  Claim C9. A build for cluster \<open>c\<close> leaves the store entry of every other cluster as
  it was and removes no entry; when the cluster has statistics, the entry of \<open>c\<close>
  becomes the new document, whatever was stored there before.
\<close>

theorem generateSpec_frame:
  assumes "generateSpec st c = Inr st'"
  shows "(\<forall>d. d \<noteq> c \<longrightarrow> generationSpecs st' d = generationSpecs st d)
       \<and> dom (generationSpecs st) \<subseteq> dom (generationSpecs st')
       \<and> (\<forall>cs stats. clusterStats st = Some cs \<and> find (\<lambda>s. cluster s = c) cs = Some stats \<longrightarrow>
             generationSpecs st' c
               = Some (spec_literal c stats (chosen_approach st c) (current_tokens st c)))"
  using assms by (auto simp: generateSpec_def Let_def split: option.splits)

theorem generateSpec_frame_witness:
  "\<exists>st'. generateSpec demo_built 3 = Inr st'
       \<and> generationSpecs st' 1 = generationSpecs demo_built 1
       \<and> generationSpecs st' 1 \<noteq> None
       \<and> map_option generation_approach (generationSpecs st' 3) = Some ''motion-focused''"
proof -
  obtain st' where built: "generateSpec demo_built 3 = Inr st'"
    by (simp add: generateSpec_def demo_built_simps find_demo_clusters Let_def)
  from generateSpec_frame [OF built] show ?thesis
    using built
    by (simp add: demo_built_simps find_demo_clusters chosen_approach_def spec_literal_def)
qed



text \<open>
  Called directly, \<open>generateSpec\<close> does not ask for a choice: without one it builds a
  text-driven document. The requirement is enforced by the button alone.
\<close>

lemma generateSpec_falls_back:
  assumes "clusterStats st = Some cs" and "find (\<lambda>s. cluster s = c) cs = Some stats"
    and "selectedApproaches st c = None"
  shows "\<exists>st'. generateSpec st c = Inr st' \<and>
     map_option generation_approach (generationSpecs st' c) = Some ''text-driven''"
  using assms by (simp add: generateSpec_def Let_def chosen_approach_def spec_literal_def)

text \<open>
  Claim C6. For a cluster with no chosen approach the build button is disabled and
  a click on it is inert: the state, and so the spec store, is returned unchanged
  and no fault is raised.
\<close>

theorem click_generate_without_approach:
  assumes "selectedApproaches st c = None"
  shows "generate_disabled st c \<and> click_generate st c = Inr st"
  using assms by (simp add: click_generate_def generate_disabled_def)

theorem click_generate_without_approach_witness:
  "generate_disabled demo_state 1 \<and> click_generate demo_state 1 = Inr demo_state"
  using click_generate_without_approach [of demo_state 1]
  by (simp add: demo_state_simps)

end
